theory Spec2Isabelle
  imports Complex_Main "HOL-Library.Sublist"
begin

section \<open>JavaScript numbers\<close>

text \<open>
  The repository is JavaScript; every quantity of the models is a Number. A Number is
  modelled as a real (no rounding, no overflow, one unsigned zero, read as +0) extended
  by the three special values of IEEE 754 that decide control flow: a comparison with
  \<open>NaN\<close> is false, and a quotient by zero is an infinity or \<open>NaN\<close>, never an
  exception. The value \<open>undefined\<close> (a missing property, a missing array element)
  is converted to \<open>NaN\<close> by every arithmetic operator and comparison.

  In the machine arithmetic a sum, a product and \<open>Math.exp\<close> of finite numbers can
  overflow to an infinity (\<open>Math.exp\<close> does above about 709.78); here they never do.
  So no statement below says that a whole step returns finite numbers: the statements
  give a result in terms of the same operations, or a finite value where the code's own
  value is finite too.
\<close>

datatype jsnum = NaN | NInf | Fin real | PInf

fun js_neg :: "jsnum \<Rightarrow> jsnum" where
  "js_neg NaN = NaN"
| "js_neg NInf = PInf"
| "js_neg (Fin a) = Fin (- a)"
| "js_neg PInf = NInf"

fun js_add :: "jsnum \<Rightarrow> jsnum \<Rightarrow> jsnum" where
  "js_add (Fin a) (Fin b) = Fin (a + b)"
| "js_add NaN _ = NaN"
| "js_add _ NaN = NaN"
| "js_add PInf NInf = NaN"
| "js_add NInf PInf = NaN"
| "js_add PInf _ = PInf"
| "js_add _ PInf = PInf"
| "js_add NInf _ = NInf"
| "js_add _ NInf = NInf"

definition js_sub :: "jsnum \<Rightarrow> jsnum \<Rightarrow> jsnum" where
  "js_sub a b = js_add a (js_neg b)"

fun js_mul :: "jsnum \<Rightarrow> jsnum \<Rightarrow> jsnum" where
  "js_mul (Fin a) (Fin b) = Fin (a * b)"
| "js_mul NaN _ = NaN"
| "js_mul _ NaN = NaN"
| "js_mul PInf (Fin b) = (if b = 0 then NaN else if 0 < b then PInf else NInf)"
| "js_mul NInf (Fin b) = (if b = 0 then NaN else if 0 < b then NInf else PInf)"
| "js_mul (Fin a) PInf = (if a = 0 then NaN else if 0 < a then PInf else NInf)"
| "js_mul (Fin a) NInf = (if a = 0 then NaN else if 0 < a then NInf else PInf)"
| "js_mul PInf PInf = PInf"
| "js_mul PInf NInf = NInf"
| "js_mul NInf PInf = NInf"
| "js_mul NInf NInf = PInf"

fun js_div :: "jsnum \<Rightarrow> jsnum \<Rightarrow> jsnum" where
  "js_div (Fin a) (Fin b) =
     (if b = 0 then (if a = 0 then NaN else if 0 < a then PInf else NInf)
      else Fin (a / b))"
| "js_div NaN _ = NaN"
| "js_div _ NaN = NaN"
| "js_div (Fin a) PInf = Fin 0"
| "js_div (Fin a) NInf = Fin 0"
| "js_div PInf (Fin b) = (if 0 \<le> b then PInf else NInf)"
| "js_div NInf (Fin b) = (if 0 \<le> b then NInf else PInf)"
| "js_div PInf PInf = NaN"
| "js_div PInf NInf = NaN"
| "js_div NInf PInf = NaN"
| "js_div NInf NInf = NaN"

text \<open>\<open>a >= b\<close> and \<open>a < b\<close>: false as soon as one side is \<open>NaN\<close>.\<close>

fun js_ge :: "jsnum \<Rightarrow> jsnum \<Rightarrow> bool" where
  "js_ge (Fin a) (Fin b) = (b \<le> a)"
| "js_ge NaN _ = False"
| "js_ge _ NaN = False"
| "js_ge PInf _ = True"
| "js_ge _ NInf = True"
| "js_ge NInf _ = False"
| "js_ge _ PInf = False"

fun js_lt :: "jsnum \<Rightarrow> jsnum \<Rightarrow> bool" where
  "js_lt (Fin a) (Fin b) = (a < b)"
| "js_lt NaN _ = False"
| "js_lt _ NaN = False"
| "js_lt PInf _ = False"
| "js_lt _ NInf = False"
| "js_lt NInf _ = True"
| "js_lt _ PInf = True"

text \<open>\<open>Math.abs\<close> and \<open>Math.exp\<close>.\<close>

fun js_abs :: "jsnum \<Rightarrow> jsnum" where
  "js_abs NaN = NaN"
| "js_abs NInf = PInf"
| "js_abs (Fin a) = Fin \<bar>a\<bar>"
| "js_abs PInf = PInf"

fun js_exp :: "jsnum \<Rightarrow> jsnum" where
  "js_exp NaN = NaN"
| "js_exp NInf = Fin 0"
| "js_exp (Fin a) = Fin (exp a)"
| "js_exp PInf = PInf"

section \<open>States and parameter vectors\<close>

text \<open>
  A State is a plain object whose properties are Numbers: a finite map from property
  names to Numbers. Reading a property that the object lacks gives \<open>undefined\<close>,
  which the arithmetic that follows turns into \<open>NaN\<close>; \<open>field\<close> is the read
  followed by that conversion. The test \<open>state.n !== undefined\<close> is the only place
  where the source looks at presence itself.
\<close>

type_synonym State = "string \<rightharpoonup> jsnum"

definition field :: "State \<Rightarrow> string \<Rightarrow> jsnum" where
  "field s k = (case s k of None \<Rightarrow> NaN | Some v \<Rightarrow> v)"

text \<open>
  The array destructuring \<open>const [I, tau, Vth, El] = params\<close>: an element beyond
  the end of the array is \<open>undefined\<close>.
\<close>

definition param :: "jsnum list \<Rightarrow> nat \<Rightarrow> jsnum" where
  "param ps i = (if i < length ps then ps ! i else NaN)"

section \<open>The model table: leaky integrate-and-fire\<close>

definition lif_simulate :: "jsnum list \<Rightarrow> State \<Rightarrow> jsnum \<Rightarrow> State" where
  "lif_simulate params state dt =
    (let I = param params 0; tau = param params 1;
         Vth = param params 2; El = param params 3;
         V_reset = js_sub El (Fin 5);
         V = field state ''x'';
         V = (if js_ge V Vth then V_reset else V);
         dV = js_div (js_add (js_sub El V) I) tau;
         newV = js_add V (js_mul dt dV);
         newV = (if js_ge newV Vth then Fin 0 else newV)
     in [''x'' \<mapsto> newV, ''t'' \<mapsto> js_add (field state ''t'') dt])"

definition lif_initialState :: State where
  "lif_initialState = [''x'' \<mapsto> Fin (-70), ''y'' \<mapsto> Fin 0, ''z'' \<mapsto> Fin 0, ''t'' \<mapsto> Fin 0]"

section \<open>The model table: Izhikevich, regular spiking\<close>

definition izhikevich_rs_simulate :: "jsnum list \<Rightarrow> State \<Rightarrow> jsnum \<Rightarrow> State" where
  "izhikevich_rs_simulate params state dt =
    (let I = param params 0; a = param params 1; b = param params 2;
         c = param params 3; d = param params 4;
         v = field state ''x'';
         u = field state ''y'';
         (v, u) = (if js_ge v (Fin 30) then (c, js_add u d) else (v, u));
         dv = js_add (js_sub (js_add (js_add (js_mul (js_mul (Fin 0.04) v) v)
                (js_mul (Fin 5) v)) (Fin 140)) u) I;
         du = js_mul a (js_sub (js_mul b v) u);
         newV = js_add v (js_mul dt dv);
         newV = (if js_ge newV (Fin 30) then Fin 30 else newV)
     in [''x'' \<mapsto> newV, ''y'' \<mapsto> js_add u (js_mul dt du),
         ''t'' \<mapsto> js_add (field state ''t'') dt])"

definition izhikevich_rs_initialState :: State where
  "izhikevich_rs_initialState =
     [''x'' \<mapsto> Fin (-65), ''y'' \<mapsto> Fin (-13), ''z'' \<mapsto> Fin 0, ''t'' \<mapsto> Fin 0]"

section \<open>The model table: Hodgkin-Huxley\<close>

text \<open>
  The rate expressions are local constants of \<open>simulate\<close>, each a function of the
  voltage \<open>V\<close> alone; they are named here as the source names them. The two alpha
  rates with a removable singularity carry the source's guard.
\<close>

definition alpha_n :: "jsnum \<Rightarrow> jsnum" where
  "alpha_n V =
    (if js_lt (js_abs (js_add V (Fin 55))) (Fin 0.00001) then Fin 0.1
     else js_div (js_mul (Fin 0.01) (js_add V (Fin 55)))
            (js_sub (Fin 1) (js_exp (js_div (js_neg (js_add V (Fin 55))) (Fin 10)))))"

definition beta_n :: "jsnum \<Rightarrow> jsnum" where
  "beta_n V = js_mul (Fin 0.125) (js_exp (js_div (js_neg (js_add V (Fin 65))) (Fin 80)))"

definition alpha_m :: "jsnum \<Rightarrow> jsnum" where
  "alpha_m V =
    (if js_lt (js_abs (js_add V (Fin 40))) (Fin 0.00001) then Fin 1.0
     else js_div (js_mul (Fin 0.1) (js_add V (Fin 40)))
            (js_sub (Fin 1) (js_exp (js_div (js_neg (js_add V (Fin 40))) (Fin 10)))))"

definition beta_m :: "jsnum \<Rightarrow> jsnum" where
  "beta_m V = js_mul (Fin 4) (js_exp (js_div (js_neg (js_add V (Fin 65))) (Fin 18)))"

definition alpha_h :: "jsnum \<Rightarrow> jsnum" where
  "alpha_h V = js_mul (Fin 0.07) (js_exp (js_div (js_neg (js_add V (Fin 65))) (Fin 20)))"

definition beta_h :: "jsnum \<Rightarrow> jsnum" where
  "beta_h V =
     js_div (Fin 1) (js_add (Fin 1) (js_exp (js_div (js_neg (js_add V (Fin 35))) (Fin 10))))"

text \<open>\<open>state.n !== undefined ? state.n : 0.32\<close>\<close>

definition hh_n :: "State \<Rightarrow> jsnum" where
  "hh_n state = (case state ''n'' of Some v \<Rightarrow> v | None \<Rightarrow> Fin 0.32)"

definition hodgkin_huxley_simulate :: "jsnum list \<Rightarrow> State \<Rightarrow> jsnum \<Rightarrow> State" where
  "hodgkin_huxley_simulate params state dt =
    (let I_ext = param params 0; gNaMax = param params 1;
         gKMax = param params 2; gL = param params 3;
         ENa = Fin 50; EK = Fin (-77); EL = Fin (-54.4); Cm = Fin 1.0;
         V = field state ''x'';
         m = field state ''y'';
         h = field state ''z'';
         n = hh_n state;
         INa = js_mul (js_mul (js_mul gNaMax (js_mul (js_mul m m) m)) h) (js_sub V ENa);
         IK = js_mul (js_mul gKMax (js_mul (js_mul (js_mul n n) n) n)) (js_sub V EK);
         IL = js_mul gL (js_sub V EL);
         dV = js_div (js_sub (js_sub (js_sub I_ext INa) IK) IL) Cm;
         dm = js_sub (js_mul (alpha_m V) (js_sub (Fin 1) m)) (js_mul (beta_m V) m);
         dh = js_sub (js_mul (alpha_h V) (js_sub (Fin 1) h)) (js_mul (beta_h V) h);
         dn = js_sub (js_mul (alpha_n V) (js_sub (Fin 1) n)) (js_mul (beta_n V) n)
     in [''x'' \<mapsto> js_add V (js_mul dt dV),
         ''y'' \<mapsto> js_add m (js_mul dt dm),
         ''z'' \<mapsto> js_add h (js_mul dt dh),
         ''n'' \<mapsto> js_add n (js_mul dt dn),
         ''t'' \<mapsto> js_add (field state ''t'') dt])"

definition hodgkin_huxley_initialState :: State where
  "hodgkin_huxley_initialState =
     [''x'' \<mapsto> Fin (-65), ''y'' \<mapsto> Fin 0.05, ''z'' \<mapsto> Fin 0.6, ''t'' \<mapsto> Fin 0]"

section \<open>The model table\<close>

text \<open>
  An entry of \<open>NEURON_MODELS\<close>. The equation markup, the slider labels and the plot
  configuration are presentation strings and are left out; a parameter keeps its
  identifier, range, step and default value.
\<close>

record parameter =
  p_id :: string
  p_min :: jsnum
  p_max :: jsnum
  p_step :: jsnum
  p_value :: jsnum

record system =
  name :: string
  parameters :: "parameter list"
  initialState :: State
  simulate :: "jsnum list \<Rightarrow> State \<Rightarrow> jsnum \<Rightarrow> State"

definition mk_parameter :: "string \<Rightarrow> real \<Rightarrow> real \<Rightarrow> real \<Rightarrow> real \<Rightarrow> parameter" where
  "mk_parameter i lo hi st v =
     \<lparr>p_id = i, p_min = Fin lo, p_max = Fin hi, p_step = Fin st, p_value = Fin v\<rparr>"

definition lif :: system where
  "lif = \<lparr>name = ''Leaky Integrate-and-Fire (LIF)'',
     parameters = [mk_parameter ''I'' 0 40 0.5 21, mk_parameter ''tau'' 5 50 1 20,
                   mk_parameter ''Vth'' (-60) (-40) 1 (-50),
                   mk_parameter ''El'' (-80) (-60) 1 (-70)],
     initialState = lif_initialState,
     simulate = lif_simulate\<rparr>"

definition izhikevich_rs :: system where
  "izhikevich_rs = \<lparr>name = ''Izhikevich (Regular Spiking)'',
     parameters = [mk_parameter ''I'' 0 25 0.5 10, mk_parameter ''a'' 0.01 0.1 0.01 0.02,
                   mk_parameter ''b'' 0.1 0.3 0.05 0.2,
                   mk_parameter ''c'' (-75) (-50) 1 (-65),
                   mk_parameter ''d'' 0 12 0.5 8],
     initialState = izhikevich_rs_initialState,
     simulate = izhikevich_rs_simulate\<rparr>"

text \<open>
  The source's name has an en dash between the two surnames, here the three bytes of its
  UTF-8 encoding; the only use of the name is the search for \<open>Hodgkin\<close>.
\<close>

definition hodgkin_huxley :: system where
  "hodgkin_huxley = \<lparr>name = ''Hodgkin'' @ [CHR 0xE2, CHR 0x80, CHR 0x93] @ ''Huxley (Biophysical)'',
     parameters = [mk_parameter ''I_ext'' 0 20 0.5 10, mk_parameter ''gNa'' 0 200 10 120,
                   mk_parameter ''gK'' 0 50 5 36, mk_parameter ''gL'' 0 1.0 0.1 0.3],
     initialState = hodgkin_huxley_initialState,
     simulate = hodgkin_huxley_simulate\<rparr>"

text \<open>The table keeps the order of its keys (\<open>Object.keys\<close> reads it).\<close>

definition NEURON_MODELS :: "(string \<times> system) list" where
  "NEURON_MODELS =
     [(''lif'', lif), (''izhikevich_rs'', izhikevich_rs), (''hodgkin_huxley'', hodgkin_huxley)]"

section \<open>The simulator\<close>

text \<open>
  The fields of \<open>class Simulator\<close>. The page around it is reduced to what the
  simulation reads back from it: \<open>sliders\<close> holds the values of the
  \<open>.js-param-slider\<close> inputs, which \<open>getParameters\<close> parses, and
  \<open>raf_count\<close> is the browser's counter of animation-frame handles (handles are
  positive). A sample of \<open>plotData\<close> is the pair \<open>[state.t, state.x]\<close> of two
  property reads, \<open>None\<close> where the property is missing.
\<close>

datatype js_error = TypeError

type_synonym sample = "jsnum option \<times> jsnum option"

record Simulator =
  systems :: "(string \<times> system) list"
  options_dt :: jsnum
  currentSystemKey :: "string option"
  animationId :: "nat option"
  plotData :: "sample list"
  state :: "State option"
  sliders :: "jsnum list"
  raf_count :: nat

text \<open>
  A method either returns or throws; the object outlives an exception thrown inside an
  event handler, in the condition the handler left it.
\<close>

datatype outcome = Done Simulator | Threw js_error Simulator

definition getCurrentSystem :: "Simulator \<Rightarrow> system option" where
  "getCurrentSystem sim =
     (case currentSystemKey sim of None \<Rightarrow> None | Some k \<Rightarrow> map_of (systems sim) k)"

definition updateUIControls :: "Simulator \<Rightarrow> outcome" where
  "updateUIControls sim =
     (case getCurrentSystem sim of
        None \<Rightarrow> Threw TypeError sim
      | Some sys \<Rightarrow> Done (sim\<lparr>sliders := map p_value (parameters sys)\<rparr>))"

definition getParameters :: "Simulator \<Rightarrow> jsnum list" where
  "getParameters sim = sliders sim"

text \<open>
  \<open>JSON.parse(JSON.stringify(o))\<close> keeps the properties of \<open>o\<close>; a finite Number
  comes back as it was, \<open>NaN\<close> and the infinities come back as \<open>null\<close>, which
  every operator of the models reads as 0.
\<close>

definition json_copy :: "State \<Rightarrow> State" where
  "json_copy s = (\<lambda>k. case s k of None \<Rightarrow> None | Some (Fin r) \<Rightarrow> Some (Fin r)
                                | Some _ \<Rightarrow> Some (Fin 0))"

definition restart :: "Simulator \<Rightarrow> outcome" where
  "restart sim =
     (case getCurrentSystem sim of
        None \<Rightarrow> Threw TypeError sim
      | Some sys \<Rightarrow>
          (let st = json_copy (initialState sys)
           in Done (sim\<lparr>state := Some st, plotData := [(st ''t'', st ''x'')]\<rparr>)))"

definition reset :: "Simulator \<Rightarrow> outcome" where
  "reset sim = (case updateUIControls sim of Threw e s \<Rightarrow> Threw e s | Done s \<Rightarrow> restart s)"

definition truthy :: "nat option \<Rightarrow> bool" where
  "truthy a = (case a of None \<Rightarrow> False | Some h \<Rightarrow> h \<noteq> 0)"

definition requestAnimationFrame :: "Simulator \<Rightarrow> Simulator" where
  "requestAnimationFrame sim =
     sim\<lparr>animationId := Some (Suc (raf_count sim)), raf_count := Suc (raf_count sim)\<rparr>"

definition start :: "Simulator \<Rightarrow> Simulator" where
  "start sim = (if truthy (animationId sim) then sim else requestAnimationFrame sim)"

definition stop :: "Simulator \<Rightarrow> Simulator" where
  "stop sim = (if truthy (animationId sim) then sim\<lparr>animationId := None\<rparr> else sim)"

text \<open>\<open>String.prototype.includes\<close>\<close>

fun includes_str :: "string \<Rightarrow> string \<Rightarrow> bool" where
  "includes_str [] p = (p = [])"
| "includes_str (c # cs) p = (prefix p (c # cs) \<or> includes_str cs p)"

definition stepsPerFrame :: "system \<Rightarrow> nat" where
  "stepsPerFrame sys = (if includes_str (name sys) ''Hodgkin'' then 20 else 10)"

text \<open>
  The \<open>for\<close> loop of \<open>animate\<close>, on the state and the buffer; the first argument
  counts the iterations left.
\<close>

definition animate_step :: "system \<Rightarrow> jsnum list \<Rightarrow> jsnum \<Rightarrow> State \<times> sample list \<Rightarrow> State \<times> sample list" where
  "animate_step sys params dt = (\<lambda>(st, pd).
     (let st' = simulate sys params st dt in (st', pd @ [(st' ''t'', st' ''x'')])))"

fun animate_loop :: "nat \<Rightarrow> system \<Rightarrow> jsnum list \<Rightarrow> jsnum \<Rightarrow> State \<times> sample list \<Rightarrow> State \<times> sample list" where
  "animate_loop 0 sys params dt acc = acc"
| "animate_loop (Suc i) sys params dt acc = animate_loop i sys params dt (animate_step sys params dt acc)"

text \<open>
  \<open>animate\<close>. Reading \<open>system.name\<close> of a missing system throws before the loop; a
  \<open>null\<close> state throws in the first call of \<open>simulate\<close>, where each model of the
  table reads \<open>state.x\<close>; in both cases nothing has been assigned yet. The redraw
  (\<open>updatePlotView\<close>) writes to the page only.
\<close>

definition animate :: "Simulator \<Rightarrow> outcome" where
  "animate sim =
     (if \<not> truthy (animationId sim) then Done sim
      else case getCurrentSystem sim of
        None \<Rightarrow> Threw TypeError sim
      | Some sys \<Rightarrow>
         (case state sim of
            None \<Rightarrow> Threw TypeError sim
          | Some st \<Rightarrow>
             (let params = getParameters sim;
                  dt = options_dt sim;
                  (st', pd) = animate_loop (stepsPerFrame sys) sys params dt (st, plotData sim);
                  pd = (if length pd > 5000 then drop (stepsPerFrame sys) pd else pd)
              in Done (requestAnimationFrame (sim\<lparr>state := Some st', plotData := pd\<rparr>)))))"

text \<open>The \<open>change\<close> listener of the model selector, up to the timer it sets.\<close>

definition on_change :: "string \<Rightarrow> Simulator \<Rightarrow> outcome" where
  "on_change key sim = reset ((stop sim)\<lparr>currentSystemKey := Some key\<rparr>)"

text \<open>
  The constructor and \<open>init\<close>, on a page that has the elements \<open>init\<close> looks up.
  An option that is not given is \<open>None\<close>.
\<close>

record options =
  opt_dt :: "jsnum option"
  opt_defaultSystem :: "string option"

definition new_Simulator :: "(string \<times> system) list \<Rightarrow> options \<Rightarrow> outcome" where
  "new_Simulator systemsMap opts =
     reset \<lparr>systems = systemsMap,
            options_dt = (case opt_dt opts of None \<Rightarrow> Fin 0.02 | Some d \<Rightarrow> d),
            currentSystemKey =
              (case opt_defaultSystem opts of
                 None \<Rightarrow> (case systemsMap of [] \<Rightarrow> None | (k, _) # _ \<Rightarrow> Some k)
               | Some k \<Rightarrow> Some k),
            animationId = None, plotData = [], state = None, sliders = [], raf_count = 0\<rparr>"

text \<open>
  The browser runs one listener at a time: an animation frame, a change of the selector,
  a click on either button, the start timer, a move of the sliders.
\<close>

datatype event = Frame | Change string | ClickReset | ClickRestart | StartTimer
  | SliderInput "jsnum list"

fun dispatch :: "event \<Rightarrow> Simulator \<Rightarrow> outcome" where
  "dispatch Frame sim = animate sim"
| "dispatch (Change key) sim = on_change key sim"
| "dispatch ClickReset sim = reset sim"
| "dispatch ClickRestart sim = restart sim"
| "dispatch StartTimer sim = Done (start sim)"
| "dispatch (SliderInput vs) sim = Done (sim\<lparr>sliders := vs\<rparr>)"

fun left :: "outcome \<Rightarrow> Simulator" where
  "left (Done sim) = sim"
| "left (Threw e sim) = sim"

fun run :: "event list \<Rightarrow> Simulator \<Rightarrow> Simulator" where
  "run [] sim = sim"
| "run (e # es) sim = run es (left (dispatch e sim))"

section \<open>Predicates of the statements\<close>

text \<open>A Number that is neither \<open>NaN\<close> nor an infinity; a method call that threw.\<close>

fun is_Fin :: "jsnum \<Rightarrow> bool" where
  "is_Fin (Fin a) = True"
| "is_Fin _ = False"

fun threw :: "outcome \<Rightarrow> bool" where
  "threw (Done sim) = False"
| "threw (Threw e sim) = True"

text \<open>
  The buffer is ordered in time when no sample is followed, anywhere later, by a sample of
  a smaller time: \<open>t_j >= t_i\<close> for \<open>i < j\<close>, in the comparison of the language.
\<close>

definition sample_time :: "sample \<Rightarrow> jsnum" where
  "sample_time p = (case fst p of None \<Rightarrow> NaN | Some v \<Rightarrow> v)"

definition time_ordered :: "sample list \<Rightarrow> bool" where
  "time_ordered pd = sorted_wrt (\<lambda>p q. js_ge (sample_time q) (sample_time p)) pd"

text \<open>
  The invariant of the buffer between two listeners: at most 5000 samples, and one more
  than a multiple of the frame's batch while a model of the table is selected (a restart
  leaves one sample, a frame adds a batch and an eviction removes one).
\<close>

definition buffer_inv :: "Simulator \<Rightarrow> bool" where
  "buffer_inv sim \<longleftrightarrow>
     length (plotData sim) \<le> 5000 \<and>
     (case getCurrentSystem sim of None \<Rightarrow> True
      | Some sys \<Rightarrow> length (plotData sim) mod stepsPerFrame sys = 1)"

text \<open>
  The application script: \<open>new Simulator('app-mount', NEURON_MODELS,
  {defaultSystem: 'lif', dt: 0.02})\<close>; the container identifier is never read.
\<close>

definition app :: outcome where
  "app = new_Simulator NEURON_MODELS \<lparr>opt_dt = Some (Fin 0.02), opt_defaultSystem = Some ''lif''\<rparr>"

text \<open>
  A running simulator with the first model selected and the sliders untouched, as the
  start timer of the application leaves it, at a given step size, state and buffer.
\<close>

definition lif_running :: "jsnum \<Rightarrow> State \<Rightarrow> sample list \<Rightarrow> Simulator" where
  "lif_running dt st pd =
     \<lparr>systems = NEURON_MODELS, options_dt = dt, currentSystemKey = Some ''lif'',
      animationId = Some 1, plotData = pd, state = Some st,
      sliders = [Fin 21, Fin 20, Fin (-50), Fin (-70)], raf_count = 1\<rparr>"

section \<open>Auxiliary facts\<close>

lemma is_Fin_iff: "is_Fin a \<longleftrightarrow> (\<exists>r. a = Fin r)"
  by (cases a) simp_all

lemma alpha_m_Fin:
  "alpha_m (Fin v) =
     Fin (if \<bar>v + 40\<bar> < 0.00001 then 1 else (0.1 * (v + 40)) / (1 - exp (- (v + 40) / 10)))"
  by (auto simp add: alpha_m_def js_sub_def)

lemma alpha_n_Fin:
  "alpha_n (Fin v) =
     Fin (if \<bar>v + 55\<bar> < 0.00001 then 0.1 else (0.01 * (v + 55)) / (1 - exp (- (v + 55) / 10)))"
  by (auto simp add: alpha_n_def js_sub_def)

lemma beta_Fin:
  "beta_n (Fin v) = Fin (0.125 * exp (- (v + 65) / 80))"
  "beta_m (Fin v) = Fin (4 * exp (- (v + 65) / 18))"
  "alpha_h (Fin v) = Fin (0.07 * exp (- (v + 65) / 20))"
  by (simp_all add: beta_n_def beta_m_def alpha_h_def)

lemma clamp_ge_lt:
  "(if js_ge a (Fin c) then Fin c else a) = (if js_lt (Fin c) a then Fin c else a)"
  by (cases a) auto

lemma field_upd: "field (s(k \<mapsto> v)) k' = (if k' = k then v else field s k')"
  by (simp add: field_def)

lemma field_empty: "field Map.empty k = NaN"
  by (simp add: field_def)

lemma stepsPerFrame_table:
  "stepsPerFrame lif = 10" "stepsPerFrame izhikevich_rs = 10" "stepsPerFrame hodgkin_huxley = 20"
  by (simp_all add: stepsPerFrame_def lif_def izhikevich_rs_def hodgkin_huxley_def)

lemma simulate_table:
  "simulate lif = lif_simulate" "simulate izhikevich_rs = izhikevich_rs_simulate"
  "simulate hodgkin_huxley = hodgkin_huxley_simulate"
  by (simp_all add: lif_def izhikevich_rs_def hodgkin_huxley_def)

lemma animate_loop_lif_t:
  "field st ''t'' = Fin t0 \<Longrightarrow>
   field (fst (animate_loop k lif ps (Fin d) (st, pd))) ''t'' = Fin (t0 + real k * d)"
proof (induction k arbitrary: st pd t0)
  case 0
  then show ?case by simp
next
  case (Suc k)
  have "field (lif_simulate ps st (Fin d)) ''t'' = Fin (t0 + d)"
    using Suc.prems by (simp add: lif_simulate_def Let_def field_upd)
  from Suc.IH [OF this] show ?case
    by (simp add: animate_step_def simulate_table Let_def algebra_simps)
qed

lemma map_of_NEURON_MODELS:
  "map_of NEURON_MODELS ''lif'' = Some lif"
  "map_of NEURON_MODELS ''izhikevich_rs'' = Some izhikevich_rs"
  "map_of NEURON_MODELS ''hodgkin_huxley'' = Some hodgkin_huxley"
  by (simp_all add: NEURON_MODELS_def)

lemma json_copy_Fin: "(\<And>k v. s k = Some v \<Longrightarrow> is_Fin v) \<Longrightarrow> json_copy s = s"
  by (rule ext) (auto simp add: json_copy_def is_Fin_iff split: option.splits jsnum.splits)

lemma json_copy_initialState:
  "json_copy lif_initialState = lif_initialState"
  "json_copy izhikevich_rs_initialState = izhikevich_rs_initialState"
  "json_copy hodgkin_huxley_initialState = hodgkin_huxley_initialState"
  by (rule json_copy_Fin; auto simp add: lif_initialState_def izhikevich_rs_initialState_def hodgkin_huxley_initialState_def split: if_splits)+

lemma restart_registered:
  "getCurrentSystem sim = Some sys \<Longrightarrow>
   restart sim = Done (sim\<lparr>state := Some (json_copy (initialState sys)),
     plotData := [(json_copy (initialState sys) ''t'', json_copy (initialState sys) ''x'')]\<rparr>)"
  by (simp add: restart_def Let_def)

lemma reset_registered:
  "getCurrentSystem sim = Some sys \<Longrightarrow>
   reset sim = Done (sim\<lparr>sliders := map p_value (parameters sys),
     state := Some (json_copy (initialState sys)),
     plotData := [(json_copy (initialState sys) ''t'', json_copy (initialState sys) ''x'')]\<rparr>)"
  by (auto simp add: reset_def updateUIControls_def restart_def Let_def getCurrentSystem_def
      split: option.splits)

lemma reset_unregistered: "getCurrentSystem sim = None \<Longrightarrow> reset sim = Threw TypeError sim"
  by (simp add: reset_def updateUIControls_def)

lemma restart_unregistered: "getCurrentSystem sim = None \<Longrightarrow> restart sim = Threw TypeError sim"
  by (simp add: restart_def)

lemma animate_running:
  assumes "truthy (animationId sim)" "getCurrentSystem sim = Some sys" "state sim = Some st"
  shows "animate sim =
     Done (requestAnimationFrame (sim\<lparr>
       state := Some (fst (animate_loop (stepsPerFrame sys) sys (sliders sim) (options_dt sim) (st, plotData sim))),
       plotData :=
         (let pd = snd (animate_loop (stepsPerFrame sys) sys (sliders sim) (options_dt sim) (st, plotData sim))
          in if length pd > 5000 then drop (stepsPerFrame sys) pd else pd)\<rparr>))"
  using assms by (simp add: animate_def getParameters_def Let_def split: prod.splits)

lemma animate_throws:
  assumes "truthy (animationId sim)" "getCurrentSystem sim = None \<or> state sim = None"
  shows "animate sim = Threw TypeError sim"
  using assms by (auto simp add: animate_def split: option.splits)

lemma animate_idle: "\<not> truthy (animationId sim) \<Longrightarrow> animate sim = Done sim"
  by (simp add: animate_def)

lemma on_change_eq:
  "(map_of (systems sim) key = None \<longrightarrow>
      on_change key sim = Threw TypeError ((stop sim)\<lparr>currentSystemKey := Some key\<rparr>)) \<and>
   (map_of (systems sim) key = Some sys \<longrightarrow>
      on_change key sim = Done ((stop sim)\<lparr>currentSystemKey := Some key,
        sliders := map p_value (parameters sys),
        state := Some (json_copy (initialState sys)),
        plotData := [(json_copy (initialState sys) ''t'', json_copy (initialState sys) ''x'')]\<rparr>))"
  by (auto simp add: on_change_def reset_registered reset_unregistered getCurrentSystem_def stop_def)



lemma stepsPerFrame_cases: "stepsPerFrame sys = 10 \<or> stepsPerFrame sys = 20"
  by (simp add: stepsPerFrame_def)

lemma animate_loop_snd:
  "snd (animate_loop k sys ps dt (st, pd)) = pd @ snd (animate_loop k sys ps dt (st, []))"
proof (induction k arbitrary: st pd)
  case 0
  then show ?case by simp
next
  case (Suc k)
  show ?case
    using Suc.IH [of "simulate sys ps st dt" "pd @ [(simulate sys ps st dt ''t'', simulate sys ps st dt ''x'')]"]
      Suc.IH [of "simulate sys ps st dt" "[(simulate sys ps st dt ''t'', simulate sys ps st dt ''x'')]"]
    by (simp add: animate_step_def Let_def)
qed

lemma animate_loop_length:
  "length (snd (animate_loop k sys ps dt (st, pd))) = length pd + k"
  by (induction k arbitrary: st pd) (simp_all add: animate_step_def Let_def)

lemma animate_loop_take:
  "take (length pd) (snd (animate_loop k sys ps dt (st, pd))) = pd"
  by (subst animate_loop_snd) simp

lemma getCurrentSystem_upd [simp]:
  "getCurrentSystem (sim\<lparr>state := a\<rparr>) = getCurrentSystem sim"
  "getCurrentSystem (sim\<lparr>plotData := b\<rparr>) = getCurrentSystem sim"
  "getCurrentSystem (sim\<lparr>sliders := c\<rparr>) = getCurrentSystem sim"
  "getCurrentSystem (sim\<lparr>animationId := d\<rparr>) = getCurrentSystem sim"
  "getCurrentSystem (sim\<lparr>raf_count := e\<rparr>) = getCurrentSystem sim"
  "getCurrentSystem (sim\<lparr>options_dt := f\<rparr>) = getCurrentSystem sim"
  "getCurrentSystem (requestAnimationFrame sim) = getCurrentSystem sim"
  "getCurrentSystem (start sim) = getCurrentSystem sim"
  "getCurrentSystem (stop sim) = getCurrentSystem sim"
  by (simp_all add: getCurrentSystem_def requestAnimationFrame_def start_def stop_def
      split: option.splits)

lemma plotData_frame [simp]:
  "plotData (requestAnimationFrame sim) = plotData sim"
  "plotData (start sim) = plotData sim"
  "plotData (stop sim) = plotData sim"
  by (simp_all add: requestAnimationFrame_def start_def stop_def)

lemma getCurrentSystem_key:
  "getCurrentSystem ((stop sim)\<lparr>currentSystemKey := Some key\<rparr>) = map_of (systems sim) key"
  by (simp add: getCurrentSystem_def stop_def)

lemma buffer_inv_one:
  assumes "length (plotData sim) = 1"
  shows "buffer_inv sim"
proof (cases "getCurrentSystem sim")
  case None
  then show ?thesis using assms by (simp add: buffer_inv_def)
next
  case (Some sys)
  then show ?thesis using assms stepsPerFrame_cases [of sys]
    by (auto simp add: buffer_inv_def)
qed

lemma buffer_inv_restart: "buffer_inv sim \<Longrightarrow> buffer_inv (left (restart sim))"
  by (cases "getCurrentSystem sim")
     (simp_all add: restart_unregistered restart_registered buffer_inv_one)

lemma buffer_inv_reset: "buffer_inv sim \<Longrightarrow> buffer_inv (left (reset sim))"
  by (cases "getCurrentSystem sim")
     (simp_all add: reset_unregistered reset_registered buffer_inv_one)

lemma buffer_inv_on_change: "buffer_inv sim \<Longrightarrow> buffer_inv (left (on_change key sim))"
proof (cases "map_of (systems sim) key")
  case None
  then have "on_change key sim = Threw TypeError ((stop sim)\<lparr>currentSystemKey := Some key\<rparr>)"
    using on_change_eq by blast
  moreover assume "buffer_inv sim"
  ultimately show ?thesis using None
    by (simp add: buffer_inv_def getCurrentSystem_key)
next
  case (Some sys)
  then show ?thesis using on_change_eq [of sim key sys]
    by (simp add: buffer_inv_one)
qed

lemma buffer_inv_animate: "buffer_inv sim \<Longrightarrow> buffer_inv (left (animate sim))"
proof -
  assume inv: "buffer_inv sim"
  show ?thesis
  proof (cases "truthy (animationId sim)")
    case False
    then show ?thesis using inv by (simp add: animate_idle)
  next
    case True
    show ?thesis
    proof (cases "getCurrentSystem sim = None \<or> state sim = None")
      case True
      then show ?thesis using inv \<open>truthy (animationId sim)\<close> by (simp add: animate_throws)
    next
      case False
      then obtain sys st where h: "getCurrentSystem sim = Some sys" "state sim = Some st" by auto
      have k: "stepsPerFrame sys = 10 \<or> stepsPerFrame sys = 20" by (rule stepsPerFrame_cases)
      from inv h have l: "length (plotData sim) \<le> 5000"
        "length (plotData sim) mod stepsPerFrame sys = 1"
        by (simp_all add: buffer_inv_def)
      show ?thesis
        using k l h
        by (auto simp add: animate_running [OF True h] buffer_inv_def
            animate_loop_length Let_def)
    qed
  qed
qed

lemma buffer_inv_dispatch: "buffer_inv sim \<Longrightarrow> buffer_inv (left (dispatch e sim))"
proof (cases e)
  case StartTimer
  assume "buffer_inv sim"
  then show ?thesis using StartTimer
    by (simp add: buffer_inv_def split: option.splits)
next
  case (SliderInput vs)
  assume "buffer_inv sim"
  then show ?thesis using SliderInput by (simp add: buffer_inv_def split: option.splits)
qed (simp_all add: buffer_inv_animate buffer_inv_on_change buffer_inv_reset buffer_inv_restart)

lemma buffer_inv_run: "buffer_inv sim \<Longrightarrow> buffer_inv (run es sim)"
  by (induction es arbitrary: sim) (simp_all add: buffer_inv_dispatch)

lemma buffer_inv_new: "new_Simulator ms opts = Done sim0 \<Longrightarrow> buffer_inv sim0"
  by (rule buffer_inv_one)
     (auto simp add: new_Simulator_def reset_def updateUIControls_def restart_def Let_def
        split: option.splits outcome.splits)

lemma buffer_inv_room:
  assumes "buffer_inv sim" "getCurrentSystem sim = Some sys"
  shows "length (plotData sim) + stepsPerFrame sys \<le> 5001"
  using assms stepsPerFrame_cases [of sys] by (auto simp add: buffer_inv_def) presburger+


lemma time_ordered_drop: "time_ordered pd \<Longrightarrow> time_ordered (drop k pd)"
  by (simp add: time_ordered_def sorted_wrt_drop)

lemma new_Simulator_lif:
  "new_Simulator NEURON_MODELS \<lparr>opt_dt = Some dt, opt_defaultSystem = Some ''lif''\<rparr> =
     Done ((lif_running dt lif_initialState [(Some (Fin 0), Some (Fin (-70)))])
             \<lparr>animationId := None, raf_count := 0\<rparr>)"
  apply (simp add: new_Simulator_def reset_registered [of _ lif] getCurrentSystem_def
      map_of_NEURON_MODELS lif_running_def)
  apply (simp add: lif_def mk_parameter_def json_copy_initialState)
  apply (simp add: lif_initialState_def)
  done

lemma start_new_Simulator_lif:
  "start (left (new_Simulator NEURON_MODELS \<lparr>opt_dt = Some dt, opt_defaultSystem = Some ''lif''\<rparr>))
     = lif_running dt lif_initialState [(Some (Fin 0), Some (Fin (-70)))]"
  by (simp add: new_Simulator_lif start_def truthy_def requestAnimationFrame_def lif_running_def)

lemma lif_running_ready:
  "truthy (animationId (lif_running dt st pd)) \<and>
   getCurrentSystem (lif_running dt st pd) = Some lif \<and>
   state (lif_running dt st pd) = Some st"
  by (simp add: lif_running_def truthy_def getCurrentSystem_def map_of_NEURON_MODELS)

lemma lif_running_frame_t:
  "field st ''t'' = Fin t0 \<Longrightarrow>
   map_option (\<lambda>s. field s ''t'') (state (left (animate (lif_running (Fin d) st pd))))
     = Some (Fin (t0 + 10 * d))"
proof -
  assume t: "field st ''t'' = Fin t0"
  note h = lif_running_ready [of "Fin d" st pd]
  show ?thesis
    using animate_loop_lif_t [OF t, of 10 "sliders (lif_running (Fin d) st pd)" d pd]
    by (simp add: animate_running [OF h [THEN conjunct1] h [THEN conjunct2, THEN conjunct1]
          h [THEN conjunct2, THEN conjunct2]] requestAnimationFrame_def stepsPerFrame_table)
       (simp add: lif_running_def)
qed


lemma simulate_advances_t:
  assumes "map_of NEURON_MODELS key = Some sys"
  shows "simulate sys ps st dt ''t'' = Some (js_add (field st ''t'') dt)"
proof -
  from assms have "sys = lif \<or> sys = izhikevich_rs \<or> sys = hodgkin_huxley"
    by (auto simp add: NEURON_MODELS_def split: if_splits)
  then show ?thesis
    by (auto simp add: simulate_table lif_simulate_def izhikevich_rs_simulate_def
        hodgkin_huxley_simulate_def Let_def split: prod.splits)
qed

lemma initial_t:
  assumes "map_of NEURON_MODELS key = Some sys"
  shows "json_copy (initialState sys) ''t'' = Some (Fin 0)"
proof -
  from assms have "sys = lif \<or> sys = izhikevich_rs \<or> sys = hodgkin_huxley"
    by (auto simp add: NEURON_MODELS_def split: if_splits)
  then show ?thesis
    by (auto simp add: lif_def izhikevich_rs_def hodgkin_huxley_def json_copy_def
        lif_initialState_def izhikevich_rs_initialState_def hodgkin_huxley_initialState_def)
qed

lemma time_ordered_snoc:
  "time_ordered (pd @ [p]) \<longleftrightarrow>
     time_ordered pd \<and> (\<forall>q\<in>set pd. js_ge (sample_time p) (sample_time q))"
  by (auto simp add: time_ordered_def sorted_wrt_append)

lemma animate_loop_time:
  assumes adv: "\<And>ps st dt. simulate sys ps st dt ''t'' = Some (js_add (field st ''t'') dt)"
    and d: "0 \<le> d"
  shows "field st ''t'' = Fin r \<Longrightarrow> time_ordered pd \<Longrightarrow>
     (\<forall>p\<in>set pd. \<exists>q. sample_time p = Fin q \<and> q \<le> r) \<Longrightarrow>
     field (fst (animate_loop k sys ps (Fin d) (st, pd))) ''t'' = Fin (r + real k * d) \<and>
     time_ordered (snd (animate_loop k sys ps (Fin d) (st, pd))) \<and>
     (\<forall>p\<in>set (snd (animate_loop k sys ps (Fin d) (st, pd))).
         \<exists>q. sample_time p = Fin q \<and> q \<le> r + real k * d)"
proof (induction k arbitrary: st pd r)
  case 0
  then show ?case by simp
next
  case (Suc k)
  let ?st = "simulate sys ps st (Fin d)"
  let ?pd = "pd @ [(?st ''t'', ?st ''x'')]"
  have t: "field ?st ''t'' = Fin (r + d)"
    using Suc.prems(1) by (simp add: field_def adv)
  have s: "sample_time (?st ''t'', ?st ''x'') = Fin (r + d)"
    using Suc.prems(1) by (simp add: sample_time_def adv)
  have o: "time_ordered ?pd"
    using Suc.prems(2,3) d by (auto simp add: time_ordered_snoc s)
  have b: "\<forall>p\<in>set ?pd. \<exists>q. sample_time p = Fin q \<and> q \<le> r + d"
    using Suc.prems(3) d s by fastforce
  from Suc.IH [OF t o b] show ?case
    by (simp add: animate_step_def Let_def algebra_simps)
qed


lemma time_inv_dispatch:
  assumes d: "0 \<le> d"
    and inv: "systems sim = NEURON_MODELS \<and> options_dt sim = Fin d \<and>
      (\<exists>st r. state sim = Some st \<and> field st ''t'' = Fin r \<and> time_ordered (plotData sim) \<and>
         (\<forall>p\<in>set (plotData sim). \<exists>q. sample_time p = Fin q \<and> q \<le> r))"
  shows "systems (left (dispatch e sim)) = NEURON_MODELS \<and>
      options_dt (left (dispatch e sim)) = Fin d \<and>
      (\<exists>st r. state (left (dispatch e sim)) = Some st \<and> field st ''t'' = Fin r \<and>
         time_ordered (plotData (left (dispatch e sim))) \<and>
         (\<forall>p\<in>set (plotData (left (dispatch e sim))). \<exists>q. sample_time p = Fin q \<and> q \<le> r))"
proof -
  from inv obtain st r where s: "systems sim = NEURON_MODELS" "options_dt sim = Fin d"
    "state sim = Some st" "field st ''t'' = Fin r" "time_ordered (plotData sim)"
    "\<forall>p\<in>set (plotData sim). \<exists>q. sample_time p = Fin q \<and> q \<le> r"
    by blast
  have fresh: "systems sim' = NEURON_MODELS \<and> options_dt sim' = Fin d \<and>
      (\<exists>st r. state sim' = Some st \<and> field st ''t'' = Fin r \<and> time_ordered (plotData sim') \<and>
         (\<forall>p\<in>set (plotData sim'). \<exists>q. sample_time p = Fin q \<and> q \<le> r))"
    if "systems sim' = NEURON_MODELS" "options_dt sim' = Fin d"
      "map_of NEURON_MODELS key = Some sys"
      "state sim' = Some (json_copy (initialState sys))"
      "plotData sim' = [(json_copy (initialState sys) ''t'', json_copy (initialState sys) ''x'')]"
    for sim' key sys
    using that initial_t [OF that(3)]
    by (simp add: field_def time_ordered_def sample_time_def)
  have same: "systems sim' = NEURON_MODELS \<and> options_dt sim' = Fin d \<and>
      (\<exists>st r. state sim' = Some st \<and> field st ''t'' = Fin r \<and> time_ordered (plotData sim') \<and>
         (\<forall>p\<in>set (plotData sim'). \<exists>q. sample_time p = Fin q \<and> q \<le> r))"
    if "systems sim' = systems sim" "options_dt sim' = options_dt sim" "state sim' = state sim"
      "plotData sim' = plotData sim"
    for sim'
    using that s by auto
  show ?thesis
  proof (cases e)
    case Frame
    show ?thesis
    proof (cases "truthy (animationId sim)")
      case False
      then show ?thesis using Frame same [of sim] by (simp add: animate_idle)
    next
      case True
      show ?thesis
      proof (cases "getCurrentSystem sim")
        case None
        then show ?thesis using Frame True same [of sim] by (simp add: animate_throws)
      next
        case (Some sys)
        then obtain key where k: "map_of NEURON_MODELS key = Some sys"
          using s(1) by (auto simp add: getCurrentSystem_def split: option.splits)
        let ?L = "animate_loop (stepsPerFrame sys) sys (sliders sim) (Fin d) (st, plotData sim)"
        have l: "field (fst ?L) ''t'' = Fin (r + real (stepsPerFrame sys) * d) \<and>
            time_ordered (snd ?L) \<and>
            (\<forall>p\<in>set (snd ?L). \<exists>q. sample_time p = Fin q \<and> q \<le> r + real (stepsPerFrame sys) * d)"
          by (rule animate_loop_time [OF simulate_advances_t [OF k] d s(4) s(5) s(6)])
        have dr: "\<forall>p\<in>set (drop (stepsPerFrame sys) (snd ?L)).
            \<exists>q. sample_time p = Fin q \<and> q \<le> r + real (stepsPerFrame sys) * d"
          using l by (meson in_set_dropD)
        show ?thesis
          using Frame l dr s(1,2)
          by (auto simp add: animate_running [OF True Some s(3)] requestAnimationFrame_def
              Let_def time_ordered_drop)
      qed
    qed
  next
    case (Change key)
    show ?thesis
    proof (cases "map_of (systems sim) key")
      case None
      then show ?thesis using Change on_change_eq [of sim key] same [of "left (on_change key sim)"]
        by (simp add: stop_def)
    next
      case (Some sys)
      then show ?thesis using Change on_change_eq [of sim key sys] s(1,2)
          fresh [of "left (on_change key sim)" key sys]
        by (simp add: stop_def)
    qed
  next
    case ClickReset
    show ?thesis
    proof (cases "getCurrentSystem sim")
      case None
      then show ?thesis using ClickReset same [of sim] by (simp add: reset_unregistered)
    next
      case (Some sys)
      then obtain key where k: "map_of NEURON_MODELS key = Some sys"
        using s(1) by (auto simp add: getCurrentSystem_def split: option.splits)
      show ?thesis using ClickReset s(1,2) fresh [of "left (reset sim)" key sys] k
        by (simp add: reset_registered [OF Some])
    qed
  next
    case ClickRestart
    show ?thesis
    proof (cases "getCurrentSystem sim")
      case None
      then show ?thesis using ClickRestart same [of sim] by (simp add: restart_unregistered)
    next
      case (Some sys)
      then obtain key where k: "map_of NEURON_MODELS key = Some sys"
        using s(1) by (auto simp add: getCurrentSystem_def split: option.splits)
      show ?thesis using ClickRestart s(1,2) fresh [of "left (restart sim)" key sys] k
        by (simp add: restart_registered [OF Some])
    qed
  next
    case StartTimer
    then show ?thesis using same [of "start sim"]
      by (simp add: start_def requestAnimationFrame_def)
  next
    case (SliderInput vs)
    then show ?thesis using same [of "sim\<lparr>sliders := vs\<rparr>"] by simp
  qed
qed


lemma time_inv_run:
  assumes d: "0 \<le> d"
  shows "systems sim = NEURON_MODELS \<and> options_dt sim = Fin d \<and>
      (\<exists>st r. state sim = Some st \<and> field st ''t'' = Fin r \<and> time_ordered (plotData sim) \<and>
         (\<forall>p\<in>set (plotData sim). \<exists>q. sample_time p = Fin q \<and> q \<le> r)) \<Longrightarrow>
    time_ordered (plotData (run es sim))"
proof (induction es arbitrary: sim)
  case Nil
  then show ?case by auto
next
  case (Cons e es)
  show ?case
    using Cons.IH [OF time_inv_dispatch [OF d Cons.prems, of e]] by simp
qed

lemma time_inv_new:
  assumes "new_Simulator NEURON_MODELS opts = Done sim0"
  shows "systems sim0 = NEURON_MODELS \<and>
      (\<exists>st r. state sim0 = Some st \<and> field st ''t'' = Fin r \<and> time_ordered (plotData sim0) \<and>
         (\<forall>p\<in>set (plotData sim0). \<exists>q. sample_time p = Fin q \<and> q \<le> r))"
proof -
  let ?I = "\<lparr>systems = NEURON_MODELS,
            options_dt = (case opt_dt opts of None \<Rightarrow> Fin 0.02 | Some d \<Rightarrow> d),
            currentSystemKey =
              (case opt_defaultSystem opts of
                 None \<Rightarrow> (case NEURON_MODELS of [] \<Rightarrow> None | (k, _) # _ \<Rightarrow> Some k)
               | Some k \<Rightarrow> Some k),
            animationId = None, plotData = [], state = None, sliders = [], raf_count = 0\<rparr>"
  from assms have r: "reset ?I = Done sim0" by (simp add: new_Simulator_def)
  show ?thesis
  proof (cases "getCurrentSystem ?I")
    case None
    then show ?thesis using r by (simp add: reset_unregistered)
  next
    case (Some sys)
    then obtain key where k: "map_of NEURON_MODELS key = Some sys"
      by (auto simp add: getCurrentSystem_def split: option.splits)
    from r have "sim0 = ?I\<lparr>sliders := map p_value (parameters sys),
        state := Some (json_copy (initialState sys)),
        plotData := [(json_copy (initialState sys) ''t'', json_copy (initialState sys) ''x'')]\<rparr>"
      by (simp add: reset_registered [OF Some])
    then show ?thesis using initial_t [OF k]
      by (simp add: field_def time_ordered_def sample_time_def)
  qed
qed

lemma plotData_time_ordered:
  assumes "new_Simulator NEURON_MODELS opts = Done sim0" "options_dt sim0 = Fin d" "0 \<le> d"
  shows "time_ordered (plotData (run es sim0))"
  using time_inv_new [OF assms(1)] assms(2)
  by (intro time_inv_run [OF assms(3)]) simp

section \<open>The step functions\<close>

text \<open>
  C7. With the default parameters \<open>I = 21\<close>, \<open>tau = 20\<close>, \<open>V_th = -50\<close>,
  \<open>E_L = -70\<close> and \<open>dt = 0.02\<close>, one step of the leaky integrate-and-fire model
  from \<open>V = -70\<close> applies neither the reset (\<open>-70 >= -50\<close> is false) nor the
  spike marker (\<open>-69.979 >= -50\<close> is false) and returns
  \<open>V = -70 + 0.02 * ((-70 - (-70) + 21) / 20) = -69.979\<close>, whatever else the state
  holds. Over the reals the value is exact; the rounding of the machine arithmetic is
  outside the model.
\<close>

theorem lif_simulate_first_step:
  "\<not> js_ge (Fin (-70)) (Fin (-50)) \<and> \<not> js_ge (Fin (-69.979)) (Fin (-50)) \<and>
   - 70 + 0.02 * ((- 70 - (- 70) + 21 * 1) / 20) = (- 69.979 :: real) \<and>
   lif_simulate [Fin 21, Fin 20, Fin (-50), Fin (-70)] (s(''x'' \<mapsto> Fin (-70))) (Fin 0.02) ''x''
     = Some (Fin (-69.979))"
  by (simp add: lif_simulate_def Let_def param_def field_upd js_sub_def)

text \<open>
  C8. Whatever the state and the parameters, the state returned by the leaky
  integrate-and-fire step has exactly the components \<open>x\<close> and \<open>t\<close>: the
  components \<open>y\<close>, \<open>z\<close> and \<open>n\<close> of the input are not carried over.
\<close>

theorem lif_simulate_components:
  "dom (lif_simulate ps s dt) = {''x'', ''t''} \<and>
   lif_simulate ps s dt ''y'' = None \<and> lif_simulate ps s dt ''z'' = None \<and>
   lif_simulate ps s dt ''n'' = None"
  by (auto simp add: lif_simulate_def Let_def)

text \<open>
  C10. The reset potential of the leaky integrate-and-fire model is no parameter of its
  own: a step that starts at or above the threshold integrates from \<open>E_L - 5\<close>, where
  \<open>E_L\<close> is the fourth parameter, and so returns what the step from the state with
  \<open>x = E_L - 5\<close> returns.
\<close>

theorem lif_simulate_reset_value:
  assumes "js_ge (field s ''x'') (param ps 2)"
  shows "lif_simulate ps s dt = lif_simulate ps (s(''x'' \<mapsto> js_sub (param ps 3) (Fin 5))) dt \<and>
    lif_simulate ps s dt ''x'' =
      Some (let I = param ps 0; tau = param ps 1; Vth = param ps 2; El = param ps 3;
                V = js_sub El (Fin 5);
                newV = js_add V (js_mul dt (js_div (js_add (js_sub El V) I) tau))
            in if js_ge newV Vth then Fin 0 else newV)"
  using assms by (simp add: lif_simulate_def Let_def field_upd)

theorem lif_simulate_reset_value_witness:
  "js_ge (field [''x'' \<mapsto> Fin 0, ''t'' \<mapsto> Fin 1] ''x'') (param [Fin 21, Fin 20, Fin (-50), Fin (-60)] 2) \<and>
   lif_simulate [Fin 21, Fin 20, Fin (-50), Fin (-60)] [''x'' \<mapsto> Fin 0, ''t'' \<mapsto> Fin 1] (Fin 0.02) ''x''
     = Some (Fin (-64.974))"
proof -
  have h: "js_ge (field [''x'' \<mapsto> Fin 0, ''t'' \<mapsto> Fin 1] ''x'')
             (param [Fin 21, Fin 20, Fin (-50), Fin (-60)] 2)"
    by (simp add: field_upd param_def)
  from lif_simulate_reset_value [OF h, THEN conjunct2, of "Fin 0.02"] h show ?thesis
    by (simp add: Let_def param_def js_sub_def)
qed

text \<open>
  C2, as amended. For every state, parameter vector and step size, the leaky
  integrate-and-fire step first replaces a voltage at or above the threshold by the reset
  value \<open>E_L - 5\<close>, then integrates \<open>dV/dt = (E_L - V + I) / tau\<close> by one forward
  Euler step, and returns the marker 0 in place of a new voltage at or above the
  threshold. When that happens and the marker itself is at or above the threshold
  (\<open>0 >= V_th\<close>, as for every threshold of the declared range), the following step with
  the same parameters integrates from the reset value.
\<close>

theorem lif_simulate_two_phase:
  "let I = param ps 0; tau = param ps 1; Vth = param ps 2; El = param ps 3;
       V_reset = js_sub El (Fin 5);
       V = (if js_ge (field s ''x'') Vth then V_reset else field s ''x'');
       newV = js_add V (js_mul dt (js_div (js_add (js_sub El V) I) tau));
       s' = lif_simulate ps s dt
   in s' ''x'' = Some (if js_ge newV Vth then Fin 0 else newV) \<and>
      (js_ge newV Vth \<and> js_ge (Fin 0) Vth \<longrightarrow>
         lif_simulate ps s' dt' ''x'' =
           Some (let newV' = js_add V_reset
                     (js_mul dt' (js_div (js_add (js_sub El V_reset) I) tau))
                 in if js_ge newV' Vth then Fin 0 else newV'))"
  by (simp add: lif_simulate_def Let_def field_upd)

theorem lif_simulate_two_phase_witness:
  "js_ge (Fin (-49.98999)) (Fin (-50)) \<and> js_ge (Fin 0) (Fin (-50)) \<and>
   lif_simulate [Fin 40, Fin 20, Fin (-50), Fin (-70)]
     [''x'' \<mapsto> Fin (-50.01), ''t'' \<mapsto> Fin 0] (Fin 0.02) ''x'' = Some (Fin 0) \<and>
   lif_simulate [Fin 40, Fin 20, Fin (-50), Fin (-70)]
     (lif_simulate [Fin 40, Fin 20, Fin (-50), Fin (-70)]
        [''x'' \<mapsto> Fin (-50.01), ''t'' \<mapsto> Fin 0] (Fin 0.02)) (Fin 0.02) ''x''
     = Some (Fin (-74.955))"
  using lif_simulate_two_phase [of "[Fin 40, Fin 20, Fin (-50), Fin (-70)]"
      "[''x'' \<mapsto> Fin (-50.01), ''t'' \<mapsto> Fin 0]" "Fin 0.02" "Fin 0.02"]
  by (simp add: Let_def param_def field_upd js_sub_def)

text \<open>
  C2 as stated fails where the threshold is positive. With \<open>I = 370\<close>, \<open>tau = 1\<close>,
  \<open>V_th = 10\<close>, \<open>E_L = -70\<close> and \<open>dt = 0.02\<close>, the step from \<open>V = 9\<close>
  integrates to \<open>14.82 >= 10\<close> and returns the marker 0; the next step finds
  \<open>0 >= 10\<close> false, applies no reset and integrates from 0 to 6, where the step from
  the reset value \<open>-75\<close> gives \<open>-67.5\<close>.
\<close>

theorem lif_simulate_two_phase_counterexample:
  "lif_simulate [Fin 370, Fin 1, Fin 10, Fin (-70)]
     [''x'' \<mapsto> Fin 9, ''t'' \<mapsto> Fin 0] (Fin 0.02) ''x'' = Some (Fin 0) \<and>
   js_ge (js_add (Fin 9) (js_mul (Fin 0.02)
      (js_div (js_add (js_sub (Fin (-70)) (Fin 9)) (Fin 370)) (Fin 1)))) (Fin 10) \<and>
   lif_simulate [Fin 370, Fin 1, Fin 10, Fin (-70)]
     (lif_simulate [Fin 370, Fin 1, Fin 10, Fin (-70)]
        [''x'' \<mapsto> Fin 9, ''t'' \<mapsto> Fin 0] (Fin 0.02)) (Fin 0.02) ''x'' = Some (Fin 6) \<and>
   lif_simulate [Fin 370, Fin 1, Fin 10, Fin (-70)]
     [''x'' \<mapsto> js_sub (Fin (-70)) (Fin 5), ''t'' \<mapsto> Fin 0.02] (Fin 0.02) ''x''
     = Some (Fin (-67.5))"
  by (simp add: lif_simulate_def Let_def param_def field_upd js_sub_def)

text \<open>
  C4. For every state \<open>(v, u)\<close>, parameter vector \<open>(I, a, b, c, d)\<close> and step size,
  the Izhikevich step applies the reset \<open>v <- c\<close>, \<open>u <- u + d\<close> when \<open>v >= 30\<close>
  at the start, computes both derivatives from the values after the reset, integrates
  both variables by one forward Euler step, and returns \<open>v\<close> replaced by 30 when the
  new value exceeds 30, and \<open>u\<close> as integrated.
\<close>

theorem izhikevich_rs_simulate_step:
  "let I = param ps 0; a = param ps 1; b = param ps 2; c = param ps 3; d = param ps 4;
       spike = js_ge (field s ''x'') (Fin 30);
       v = (if spike then c else field s ''x'');
       u = (if spike then js_add (field s ''y'') d else field s ''y'');
       dv = js_add (js_sub (js_add (js_add (js_mul (js_mul (Fin 0.04) v) v)
              (js_mul (Fin 5) v)) (Fin 140)) u) I;
       du = js_mul a (js_sub (js_mul b v) u);
       newV = js_add v (js_mul dt dv)
   in izhikevich_rs_simulate ps s dt ''x'' = Some (if js_lt (Fin 30) newV then Fin 30 else newV) \<and>
      izhikevich_rs_simulate ps s dt ''y'' = Some (js_add u (js_mul dt du))"
  by (simp add: izhikevich_rs_simulate_def Let_def clamp_ge_lt)

text \<open>
  C9. The declared initial state of the Hodgkin-Huxley model has no component \<open>n\<close>.
  A step from a state without \<open>n\<close> is the step from that state with \<open>n = 0.32\<close>; a
  state with \<open>n\<close> is stepped from its own value; every returned state has an \<open>n\<close>.
  So after a restart, which copies the initial state, the first step of a frame uses the
  default and every later one finds \<open>n\<close> in the state.
\<close>

theorem hodgkin_huxley_n_default:
  "hodgkin_huxley_initialState ''n'' = None \<and>
   json_copy hodgkin_huxley_initialState ''n'' = None \<and>
   (s ''n'' = None \<longrightarrow>
      hodgkin_huxley_simulate ps s dt = hodgkin_huxley_simulate ps (s(''n'' \<mapsto> Fin 0.32)) dt) \<and>
   hodgkin_huxley_simulate ps s dt ''n'' =
     Some (let V = field s ''x''; n = (case s ''n'' of None \<Rightarrow> Fin 0.32 | Some v \<Rightarrow> v)
           in js_add n (js_mul dt
                (js_sub (js_mul (alpha_n V) (js_sub (Fin 1) n)) (js_mul (beta_n V) n)))) \<and>
   fst (animate_loop (Suc i) hodgkin_huxley qs dt (st, pd)) ''n'' \<noteq> None"
proof -
  have loop: "fst acc ''n'' \<noteq> None \<Longrightarrow> fst (animate_loop j hodgkin_huxley qs dt acc) ''n'' \<noteq> None"
    for j acc
    by (induction j arbitrary: acc)
       (auto simp add: animate_step_def hodgkin_huxley_def hodgkin_huxley_simulate_def Let_def
          split: prod.splits)
  have "fst (animate_step hodgkin_huxley qs dt (st, pd)) ''n'' \<noteq> None"
    by (simp add: animate_step_def hodgkin_huxley_def hodgkin_huxley_simulate_def Let_def)
  then have "fst (animate_loop (Suc i) hodgkin_huxley qs dt (st, pd)) ''n'' \<noteq> None"
    using loop by simp
  then show ?thesis
    by (simp add: hodgkin_huxley_initialState_def json_copy_def hodgkin_huxley_simulate_def
        Let_def hh_n_def field_upd)
qed

theorem hodgkin_huxley_n_default_witness:
  "hodgkin_huxley_initialState ''n'' = None \<and>
   hodgkin_huxley_simulate [Fin 10, Fin 120, Fin 36, Fin 0.3] hodgkin_huxley_initialState (Fin 0.02)
     = hodgkin_huxley_simulate [Fin 10, Fin 120, Fin 36, Fin 0.3]
         (hodgkin_huxley_initialState(''n'' \<mapsto> Fin 0.32)) (Fin 0.02)"
  using hodgkin_huxley_n_default [of hodgkin_huxley_initialState "[Fin 10, Fin 120, Fin 36, Fin 0.3]" "Fin 0.02"]
  by simp

text \<open>
  C1. The two rate expressions of the Hodgkin-Huxley step that divide by a term vanishing
  at one voltage are guarded: for a voltage less than \<open>1e-5\<close> away from \<open>-40\<close> the
  sodium rate \<open>alpha_m\<close> is the constant 1, for a voltage less than \<open>1e-5\<close> away
  from \<open>-55\<close> the potassium rate \<open>alpha_n\<close> is the constant 0.1, and in particular
  \<open>alpha_m\<close> at \<open>-40\<close> is 1 and \<open>alpha_n\<close> at \<open>-55\<close> is 0.1. At every finite
  voltage both rates are finite numbers: outside the guard the divisor is not zero, so no
  quotient by zero (an infinity or \<open>NaN\<close>) arises. The step uses the guarded value: at
  \<open>V = -40\<close> the gating variable \<open>m\<close> advances by \<open>dt * (1 * (1 - m) - beta_m * m)\<close>.
  Nothing is said of the other terms of the step, which can overflow in the machine
  arithmetic.
\<close>

theorem hodgkin_huxley_rates_guarded:
  "(\<forall>v. \<bar>v + 40\<bar> < 0.00001 \<longrightarrow> alpha_m (Fin v) = Fin 1) \<and>
   (\<forall>v. \<bar>v + 55\<bar> < 0.00001 \<longrightarrow> alpha_n (Fin v) = Fin 0.1) \<and>
   alpha_m (Fin (-40)) = Fin 1 \<and> alpha_n (Fin (-55)) = Fin 0.1 \<and>
   (\<forall>v. is_Fin (alpha_m (Fin v)) \<and> is_Fin (alpha_n (Fin v))) \<and>
   (\<forall>ps s dt. field s ''x'' = Fin (-40) \<longrightarrow>
      hodgkin_huxley_simulate ps s dt ''y'' =
        Some (js_add (field s ''y'') (js_mul dt
          (js_sub (js_mul (Fin 1) (js_sub (Fin 1) (field s ''y'')))
                  (js_mul (beta_m (Fin (-40))) (field s ''y''))))))"
proof (intro conjI allI impI)
  fix v :: real
  show "is_Fin (alpha_m (Fin v))" by (simp add: alpha_m_Fin)
  show "is_Fin (alpha_n (Fin v))" by (simp add: alpha_n_Fin)
  assume "\<bar>v + 40\<bar> < 0.00001"
  then show "alpha_m (Fin v) = Fin 1" by (simp add: alpha_m_Fin)
next
  fix v :: real
  assume "\<bar>v + 55\<bar> < 0.00001"
  then show "alpha_n (Fin v) = Fin 0.1" by (simp add: alpha_n_Fin)
next
  show "alpha_m (Fin (-40)) = Fin 1" by (simp add: alpha_m_Fin)
  show "alpha_n (Fin (-55)) = Fin 0.1" by (simp add: alpha_n_Fin)
next
  fix ps s dt
  assume "field s ''x'' = Fin (-40)"
  then show "hodgkin_huxley_simulate ps s dt ''y'' =
      Some (js_add (field s ''y'') (js_mul dt
        (js_sub (js_mul (Fin 1) (js_sub (Fin 1) (field s ''y'')))
                (js_mul (beta_m (Fin (-40))) (field s ''y'')))))"
    by (simp add: hodgkin_huxley_simulate_def Let_def alpha_m_Fin)
qed

theorem hodgkin_huxley_rates_guarded_witness:
  "\<bar>- 40.000001 + 40\<bar> < (0.00001 :: real) \<and> alpha_m (Fin (- 40.000001)) = Fin 1 \<and>
   \<bar>- 54.999999 + 55\<bar> < (0.00001 :: real) \<and> alpha_n (Fin (- 54.999999)) = Fin 0.1 \<and>
   field (hodgkin_huxley_initialState(''x'' \<mapsto> Fin (-40))) ''x'' = Fin (-40) \<and>
   hodgkin_huxley_simulate [Fin 10, Fin 120, Fin 36, Fin 0.3]
       (hodgkin_huxley_initialState(''x'' \<mapsto> Fin (-40))) (Fin 0.02) ''y'' =
     Some (Fin (0.05 + 0.02 * (0.95 - 4 * exp (- 25 / 18) * 0.05)))"
proof -
  have g: "\<bar>- 40.000001 + 40\<bar> < (0.00001 :: real)" "\<bar>- 54.999999 + 55\<bar> < (0.00001 :: real)"
    by simp_all
  have x: "field (hodgkin_huxley_initialState(''x'' \<mapsto> Fin (-40))) ''x'' = Fin (-40)"
    by (simp add: field_upd)
  note t = hodgkin_huxley_rates_guarded
  have m: "alpha_m (Fin (- 40.000001)) = Fin 1"
    using t [THEN conjunct1, rule_format, OF g(1)] .
  have n: "alpha_n (Fin (- 54.999999)) = Fin 0.1"
    using t [THEN conjunct2, THEN conjunct1, rule_format, OF g(2)] .
  have y: "hodgkin_huxley_simulate [Fin 10, Fin 120, Fin 36, Fin 0.3]
       (hodgkin_huxley_initialState(''x'' \<mapsto> Fin (-40))) (Fin 0.02) ''y'' =
     Some (Fin (0.05 + 0.02 * (0.95 - 4 * exp (- 25 / 18) * 0.05)))"
    using t [THEN conjunct2, THEN conjunct2, THEN conjunct2, THEN conjunct2, THEN conjunct2,
        rule_format, OF x, of "[Fin 10, Fin 120, Fin 36, Fin 0.3]" "Fin 0.02"]
    by (simp add: field_upd hodgkin_huxley_initialState_def beta_Fin js_sub_def)
  from g m n x y show ?thesis by simp
qed

section \<open>Frames and listeners of the simulator\<close>

text \<open>
  C3. The buffer \<open>plotData\<close> never holds more than 5000 samples when a listener has
  run: the invariant holds after the constructor and after every sequence of frames,
  selector changes, clicks, timers and slider moves. Within a frame the buffer stays at
  or below 5000 until the last push of the batch; the batch is appended at the end; when
  the buffer then holds more than 5000 samples, exactly one batch (\<open>stepsPerFrame\<close>
  samples, 10 or 20) is removed from the front, which brings it back to at most 5000 and
  keeps a buffer ordered in time if it was. With the application's model table and a
  finite step size \<open>dt >= 0\<close> the buffer is ordered in time after every sequence of
  listeners.
\<close>

theorem plotData_bounded:
  "(new_Simulator ms opts = Done sim0 \<longrightarrow>
      buffer_inv (run es sim0) \<and> length (plotData (run es sim0)) \<le> 5000) \<and>
   (new_Simulator NEURON_MODELS opts' = Done sim1 \<and> options_dt sim1 = Fin d \<and> 0 \<le> d \<longrightarrow>
      time_ordered (plotData (run es' sim1))) \<and>
   (buffer_inv sim \<longrightarrow>
      length (plotData sim) \<le> 5000 \<and>
      (truthy (animationId sim) \<and> getCurrentSystem sim = Some sys \<and> state sim = Some st \<longrightarrow>
        (let k = stepsPerFrame sys;
             pushed = (\<lambda>i. snd (animate_loop i sys (getParameters sim) (options_dt sim)
                                  (st, plotData sim)))
         in (\<forall>i<k. length (pushed i) \<le> 5000) \<and>
            length (pushed k) = length (plotData sim) + k \<and>
            take (length (plotData sim)) (pushed k) = plotData sim \<and>
            plotData (left (animate sim)) =
              (if length (pushed k) > 5000 then drop k (pushed k) else pushed k) \<and>
            length (plotData (left (animate sim))) \<le> 5000 \<and>
            buffer_inv (left (animate sim)) \<and>
            (time_ordered (pushed k) \<longrightarrow> time_ordered (plotData (left (animate sim)))))))"
proof (intro conjI impI)
  assume "new_Simulator ms opts = Done sim0"
  then show i: "buffer_inv (run es sim0)"
    by (intro buffer_inv_run buffer_inv_new)
  then show "length (plotData (run es sim0)) \<le> 5000"
    by (simp add: buffer_inv_def)
next
  assume "new_Simulator NEURON_MODELS opts' = Done sim1 \<and> options_dt sim1 = Fin d \<and> 0 \<le> d"
  then show "time_ordered (plotData (run es' sim1))"
    using plotData_time_ordered by blast
next
  assume "buffer_inv sim"
  then show "length (plotData sim) \<le> 5000" by (simp add: buffer_inv_def)
next
  assume inv: "buffer_inv sim"
    and run: "truthy (animationId sim) \<and> getCurrentSystem sim = Some sys \<and> state sim = Some st"
  let ?pushed = "\<lambda>i. snd (animate_loop i sys (getParameters sim) (options_dt sim) (st, plotData sim))"
  let ?k = "stepsPerFrame sys"
  from run have h: "truthy (animationId sim)" "getCurrentSystem sim = Some sys" "state sim = Some st"
    by simp_all
  have room: "length (plotData sim) + ?k \<le> 5001"
    using inv h(2) by (rule buffer_inv_room)
  have a: "\<forall>i<?k. length (?pushed i) \<le> 5000"
    using room by (simp add: animate_loop_length)
  have b: "length (?pushed ?k) = length (plotData sim) + ?k"
    by (simp add: animate_loop_length)
  have c: "take (length (plotData sim)) (?pushed ?k) = plotData sim"
    by (rule animate_loop_take)
  have d: "plotData (left (animate sim)) =
      (if length (?pushed ?k) > 5000 then drop ?k (?pushed ?k) else ?pushed ?k)"
    by (simp add: animate_running [OF h] getParameters_def Let_def)
  have e: "length (plotData (left (animate sim))) \<le> 5000"
    using buffer_inv_animate [OF inv] by (simp add: buffer_inv_def)
  have f: "time_ordered (?pushed ?k) \<longrightarrow> time_ordered (plotData (left (animate sim)))"
    unfolding d by (simp add: time_ordered_drop)
  from a b c d e f buffer_inv_animate [OF inv]
  show "let k = stepsPerFrame sys;
             pushed = (\<lambda>i. snd (animate_loop i sys (getParameters sim) (options_dt sim)
                                  (st, plotData sim)))
         in (\<forall>i<k. length (pushed i) \<le> 5000) \<and>
            length (pushed k) = length (plotData sim) + k \<and>
            take (length (plotData sim)) (pushed k) = plotData sim \<and>
            plotData (left (animate sim)) =
              (if length (pushed k) > 5000 then drop k (pushed k) else pushed k) \<and>
            length (plotData (left (animate sim))) \<le> 5000 \<and>
            buffer_inv (left (animate sim)) \<and>
            (time_ordered (pushed k) \<longrightarrow> time_ordered (plotData (left (animate sim))))"
    unfolding Let_def by blast
qed

theorem plotData_bounded_witness:
  "\<not> threw app \<and> options_dt (left app) = Fin 0.02 \<and>
   buffer_inv (run [StartTimer, Frame, Change ''hodgkin_huxley'', StartTimer, Frame] (left app)) \<and>
   length (plotData
     (run [StartTimer, Frame, Change ''hodgkin_huxley'', StartTimer, Frame] (left app))) \<le> 5000 \<and>
   time_ordered (plotData
     (run [StartTimer, Frame, Change ''hodgkin_huxley'', StartTimer, Frame] (left app))) \<and>
   buffer_inv (lif_running (Fin 0.02) lif_initialState (replicate 4991 (Some (Fin 0), Some (Fin (-70))))) \<and>
   length (plotData (left (animate
     (lif_running (Fin 0.02) lif_initialState (replicate 4991 (Some (Fin 0), Some (Fin (-70)))))))) = 4991 \<and>
   plotData (left (animate
     (lif_running (Fin 0.02) lif_initialState (replicate 4991 (Some (Fin 0), Some (Fin (-70)))))))
   = drop 10 (snd (animate_loop 10 lif [Fin 21, Fin 20, Fin (-50), Fin (-70)] (Fin 0.02)
       (lif_initialState, replicate 4991 (Some (Fin 0), Some (Fin (-70))))))"
proof -
  let ?S = "lif_running (Fin 0.02) lif_initialState (replicate 4991 (Some (Fin 0), Some (Fin (-70))))"
  have a: "new_Simulator NEURON_MODELS \<lparr>opt_dt = Some (Fin 0.02), opt_defaultSystem = Some ''lif''\<rparr>
      = Done (left app)" "\<not> threw app"
    by (simp_all add: app_def new_Simulator_lif)
  have inv: "buffer_inv ?S"
    by (simp add: buffer_inv_def lif_running_ready stepsPerFrame_table) (simp add: lif_running_def)
  have h: "truthy (animationId ?S) \<and> getCurrentSystem ?S = Some lif \<and> state ?S = Some lif_initialState"
    by (rule lif_running_ready)
  have r: "buffer_inv (run [StartTimer, Frame, Change ''hodgkin_huxley'', StartTimer, Frame] (left app))"
    by (rule plotData_bounded [THEN conjunct1, rule_format, OF a(1), THEN conjunct1])
  have n: "length (plotData
      (run [StartTimer, Frame, Change ''hodgkin_huxley'', StartTimer, Frame] (left app))) \<le> 5000"
    by (rule plotData_bounded [THEN conjunct1, rule_format, OF a(1), THEN conjunct2])
  have dt: "options_dt (left app) = Fin 0.02"
    by (simp add: app_def new_Simulator_lif lif_running_def)
  have o: "time_ordered (plotData
      (run [StartTimer, Frame, Change ''hodgkin_huxley'', StartTimer, Frame] (left app)))"
    using a(1) dt
    by (intro plotData_bounded [THEN conjunct2, THEN conjunct1, rule_format, of _ _ "0.02"]) simp
  have f: "plotData (left (animate ?S))
      = drop 10 (snd (animate_loop 10 lif [Fin 21, Fin 20, Fin (-50), Fin (-70)] (Fin 0.02)
          (lif_initialState, replicate 4991 (Some (Fin 0), Some (Fin (-70))))))"
    using plotData_bounded [THEN conjunct2, THEN conjunct2, rule_format, OF inv,
        THEN conjunct2, rule_format, OF h]
    by (simp add: Let_def stepsPerFrame_table getParameters_def animate_loop_length)
       (simp add: lif_running_def)
  have l: "length (plotData (left (animate ?S))) = 4991"
    unfolding f by (simp add: animate_loop_length)
  from a(2) dt r n o inv l f show ?thesis by simp
qed

text \<open>
  C5, as amended. The simulator rejects no step size: whatever \<open>dt\<close> is (positive,
  zero, negative, not a number), a frame of a running simulator that has a registered
  model and a state does not fail and replaces the state by the result of
  \<open>stepsPerFrame\<close> applications of the model's step function with that \<open>dt\<close>, each
  application replacing the state by what the step function returns. A frame fails only
  with a \<open>TypeError\<close>, when the current key is not in the table or the state is
  \<open>null\<close>, and then leaves the simulator as it was.
\<close>

theorem animate_accepts_every_dt:
  "(truthy (animationId sim) \<and> getCurrentSystem sim = Some sys \<and> state sim = Some st \<longrightarrow>
      \<not> threw (animate (sim\<lparr>options_dt := dt\<rparr>)) \<and>
      state (left (animate (sim\<lparr>options_dt := dt\<rparr>))) =
        Some (fst (animate_loop (stepsPerFrame sys) sys (getParameters sim) dt (st, plotData sim)))) \<and>
   fst (animate_step sys ps dt (st, pd)) = simulate sys ps st dt \<and>
   (truthy (animationId sim) \<and> (getCurrentSystem sim = None \<or> state sim = None) \<longrightarrow>
      animate (sim\<lparr>options_dt := dt\<rparr>) = Threw TypeError (sim\<lparr>options_dt := dt\<rparr>))"
proof (intro conjI impI)
  assume "truthy (animationId sim) \<and> getCurrentSystem sim = Some sys \<and> state sim = Some st"
  then have h: "truthy (animationId (sim\<lparr>options_dt := dt\<rparr>))"
    "getCurrentSystem (sim\<lparr>options_dt := dt\<rparr>) = Some sys"
    "state (sim\<lparr>options_dt := dt\<rparr>) = Some st"
    by simp_all
  show "\<not> threw (animate (sim\<lparr>options_dt := dt\<rparr>))"
    by (simp add: animate_running [OF h])
  show "state (left (animate (sim\<lparr>options_dt := dt\<rparr>))) =
        Some (fst (animate_loop (stepsPerFrame sys) sys (getParameters sim) dt (st, plotData sim)))"
    by (simp add: animate_running [OF h] requestAnimationFrame_def getParameters_def)
next
  show "fst (animate_step sys ps dt (st, pd)) = simulate sys ps st dt"
    by (simp add: animate_step_def Let_def)
next
  assume "truthy (animationId sim) \<and> (getCurrentSystem sim = None \<or> state sim = None)"
  then show "animate (sim\<lparr>options_dt := dt\<rparr>) = Threw TypeError (sim\<lparr>options_dt := dt\<rparr>)"
    by (intro animate_throws) simp_all
qed

theorem animate_accepts_every_dt_witness:
  "truthy (animationId (lif_running (Fin 0.02) lif_initialState [])) \<and>
   getCurrentSystem (lif_running (Fin 0.02) lif_initialState []) = Some lif \<and>
   state (lif_running (Fin 0.02) lif_initialState []) = Some lif_initialState \<and>
   \<not> threw (animate (lif_running (Fin 0) lif_initialState [])) \<and>
   state (left (animate (lif_running (Fin 0) lif_initialState []))) =
     Some (fst (animate_loop 10 lif [Fin 21, Fin 20, Fin (-50), Fin (-70)] (Fin 0)
             (lif_initialState, [])))"
proof -
  note h = lif_running_ready [of "Fin 0.02" lif_initialState "[]"]
  have e: "(lif_running (Fin 0.02) lif_initialState [])\<lparr>options_dt := Fin 0\<rparr>
      = lif_running (Fin 0) lif_initialState []"
    by (simp add: lif_running_def)
  from animate_accepts_every_dt [THEN conjunct1, rule_format, OF h, of "Fin 0"] h
  show ?thesis
    unfolding e by (simp add: stepsPerFrame_table getParameters_def) (simp add: lif_running_def)
qed

text \<open>
  C5 as stated fails: no \<open>InvalidStepError\<close> exists. The application's simulator
  built with \<open>dt = -0.02\<close> and started runs its first frame without failing, and the
  state's time goes from 0 to \<open>-0.2\<close>.
\<close>

theorem animate_accepts_every_dt_counterexample:
  "start (left (new_Simulator NEURON_MODELS
       \<lparr>opt_dt = Some (Fin (-0.02)), opt_defaultSystem = Some ''lif''\<rparr>))
     = lif_running (Fin (-0.02)) lif_initialState [(Some (Fin 0), Some (Fin (-70)))] \<and>
   js_ge (Fin 0) (Fin (-0.02)) \<and>
   \<not> threw (animate (lif_running (Fin (-0.02)) lif_initialState [(Some (Fin 0), Some (Fin (-70)))])) \<and>
   map_option (\<lambda>s. field s ''t'')
     (state (lif_running (Fin (-0.02)) lif_initialState [(Some (Fin 0), Some (Fin (-70)))]))
     = Some (Fin 0) \<and>
   map_option (\<lambda>s. field s ''t'')
     (state (left (animate
        (lif_running (Fin (-0.02)) lif_initialState [(Some (Fin 0), Some (Fin (-70)))]))))
     = Some (Fin (-0.2))"
proof -
  let ?S = "lif_running (Fin (-0.02)) lif_initialState [(Some (Fin 0), Some (Fin (-70)))]"
  have t0: "field lif_initialState ''t'' = Fin 0"
    by (simp add: lif_initialState_def field_upd)
  note h = lif_running_ready [of "Fin (-0.02)" lif_initialState "[(Some (Fin 0), Some (Fin (-70)))]"]
  have "\<not> threw (animate ?S)"
    using animate_running [OF h [THEN conjunct1] h [THEN conjunct2, THEN conjunct1]
          h [THEN conjunct2, THEN conjunct2]] by simp
  moreover have "map_option (\<lambda>s. field s ''t'') (state ?S) = Some (Fin 0)"
    by (simp add: lif_running_def t0)
  moreover have "map_option (\<lambda>s. field s ''t'') (state (left (animate ?S))) = Some (Fin (-0.2))"
    using lif_running_frame_t [OF t0, of "-0.02" "[(Some (Fin 0), Some (Fin (-70)))]"] by simp
  ultimately show ?thesis
    by (simp add: start_new_Simulator_lif)
qed




end
